theory Spec2Isabelle
  imports Complex_Main "HOL-Library.AList"
begin

section \<open>Python values, dictionaries and exceptions\<close>

text \<open>
  The player of \<^verbatim>\<open>pomice/player.py\<close> stores values that arrive in JSON payloads, so the
  fields fed from a payload hold a dynamically typed value. Numbers are identified by their
  numeric value (\<^verbatim>\<open>0 == 0.0\<close>) and taken as reals: the code only compares, adds and
  subtracts them. A dictionary is an association list in insertion order.
\<close>

datatype pyval =
    PNone
  | PBool bool
  | PNum real
  | PStr string
  | PDict "(string \<times> pyval) list"

type_synonym pydict = "(string \<times> pyval) list"

text \<open>Truth value testing, as \<^verbatim>\<open>if x:\<close> and \<^verbatim>\<open>x and y\<close> do it.\<close>

fun truthy :: "pyval \<Rightarrow> bool" where
  "truthy PNone = False"
| "truthy (PBool b) = b"
| "truthy (PNum r) = (r \<noteq> 0)"
| "truthy (PStr s) = (s \<noteq> [])"
| "truthy (PDict d) = (d \<noteq> [])"

text \<open>
  The number a value stands for in arithmetic and ordering against a number; \<^verbatim>\<open>bool\<close> is a
  subclass of \<^verbatim>\<open>int\<close>. For the other values \<^verbatim>\<open>+\<close> and \<^verbatim>\<open><\<close> against a number raise
  \<^verbatim>\<open>TypeError\<close>.
\<close>

fun num_of :: "pyval \<Rightarrow> real option" where
  "num_of (PNum r) = Some r"
| "num_of (PBool b) = Some (if b then 1 else 0)"
| "num_of PNone = None"
| "num_of (PStr s) = None"
| "num_of (PDict d) = None"

definition dict_get :: "pydict \<Rightarrow> string \<Rightarrow> pyval" where
  \<comment> \<open>\<^verbatim>\<open>d.get(k)\<close>: the value, or \<^verbatim>\<open>None\<close> for a missing key\<close>
  "dict_get d k = (case map_of d k of None \<Rightarrow> PNone | Some v \<Rightarrow> v)"

definition dict_keys :: "pydict \<Rightarrow> string set" where
  "dict_keys d = set (map fst d)"

definition dict_update :: "string \<Rightarrow> pyval \<Rightarrow> pydict \<Rightarrow> pydict" where
  \<comment> \<open>\<^verbatim>\<open>d.update({k: v})\<close>, also \<^verbatim>\<open>{**d, k: v}\<close>\<close>
  "dict_update k v d = AList.update k v d"

datatype error =
    AttributeError
  | TypeError
  | ValueError
  | IndexError
  | TrackInvalidPosition
  | External string

text \<open>\<^verbatim>\<open>str(n)\<close> for an integer: its decimal digits.\<close>

fun digits :: "nat \<Rightarrow> string" where
  "digits n =
     (if n < 10 then [''0123456789'' ! n]
      else digits (n div 10) @ [''0123456789'' ! (n mod 10)])"

declare digits.simps [simp del]

definition str_int :: "int \<Rightarrow> string" where
  "str_int i = (if i < 0 then CHR ''-'' # digits (nat (- i)) else digits (nat i))"

section \<open>Collaborators outside the file\<close>

text \<open>
  \<^verbatim>\<open>objects.Track\<close> and \<^verbatim>\<open>filters.Filter\<close> are declared in other modules; the player
  reads the attributes below and writes \<^verbatim>\<open>youtube_result\<close>.
\<close>

datatype track =
  Track (track_id: string) (track_length: real) (spotify: bool) (search_type: string)
        (youtube_result: "track option")

datatype pomice_filter = Filter (payload: pydict)

type_synonym channel = int

text \<open>
  What a call does to the outside world, in order: a message handed to \<^verbatim>\<open>Node.send\<close>
  (its keyword arguments), a query to the node's REST interface, and the calls into the chat
  library. The node and the chat library are taken to accept every call.
\<close>

datatype effect =
    NodeSend pydict
  | NodeGetTracks string
  | ChangeVoiceState "channel option"
  | RegisterPlayer int
  | UnregisterPlayer int
  | Cleanup
  | BotDispatch string pydict

text \<open>
  What the surroundings answer during one call: the clock \<^verbatim>\<open>time.time()\<close>,
  \<^verbatim>\<open>self.guild.get_channel(int(channel_id))\<close>, \<^verbatim>\<open>self._node.get_tracks(query)\<close> (a list of
  tracks or \<^verbatim>\<open>None\<close>), and the name of the event object that
  \<^verbatim>\<open>getattr(events, event_type, None)(data)\<close> builds.
\<close>

record env =
  now :: real
  get_channel :: "pyval \<Rightarrow> error + channel option"
  node_get_tracks :: "string \<Rightarrow> error + track list option"
  make_event :: "pyval \<Rightarrow> pydict \<Rightarrow> error + string"

section \<open>The player\<close>

text \<open>
  The fields of \<^verbatim>\<open>Player\<close>; \<open>p_x\<close> is the attribute \<^verbatim>\<open>_x\<close> of the source. \<open>guild_id\<close> is
  \<^verbatim>\<open>self._guild.id\<close>. \<open>is_connected\<close> is the instance attribute that \<^verbatim>\<open>connect\<close> creates;
  it is not \<^verbatim>\<open>_is_connected\<close>. The references \<^verbatim>\<open>client\<close>, \<^verbatim>\<open>_bot\<close> and \<^verbatim>\<open>_node\<close> are never
  reassigned and are left out.
\<close>

record player =
  channel :: "channel option"
  guild_id :: int
  p_current :: "track option"
  p_filter :: "pomice_filter option"
  p_volume :: int
  p_paused :: bool
  p_is_connected :: pyval
  p_position :: real
  p_last_position :: pyval
  p_last_update :: real
  p_voice_state :: pydict
  is_connected :: "bool option"

type_synonym 'a outcome = "(error + 'a) \<times> player \<times> effect list"

definition Player_init :: "channel \<Rightarrow> int \<Rightarrow> player" where
  "Player_init ch gid =
     \<lparr> channel = Some ch, guild_id = gid, p_current = None, p_filter = None,
       p_volume = 100, p_paused = False, p_is_connected = PBool False,
       p_position = 0, p_last_position = PNum 0, p_last_update = 0,
       p_voice_state = [], is_connected = None \<rparr>"

subsection \<open>Properties\<close>

definition current :: "player \<Rightarrow> track option" where
  "current s = p_current s"

definition is_playing :: "player \<Rightarrow> pyval" where
  \<comment> \<open>\<^verbatim>\<open>self._is_connected and self.current is not None\<close>\<close>
  "is_playing s =
     (if truthy (p_is_connected s) then PBool (current s \<noteq> None) else p_is_connected s)"

definition is_paused :: "player \<Rightarrow> pyval" where
  \<comment> \<open>\<^verbatim>\<open>self._is_connected and self._paused\<close>\<close>
  "is_paused s =
     (if truthy (p_is_connected s) then PBool (p_paused s) else p_is_connected s)"

definition volume :: "player \<Rightarrow> int" where
  "volume s = p_volume s"

definition filter_prop :: "player \<Rightarrow> pomice_filter option" where
  "filter_prop s = p_filter s"

definition position :: "env \<Rightarrow> player \<Rightarrow> error + real" where
  "position e s =
     (case (truthy (is_playing s), current s) of
        (True, Some t) \<Rightarrow>
          (if truthy (is_paused s) then
             (case num_of (p_last_position s) of
                None \<Rightarrow> Inl TypeError
              | Some lp \<Rightarrow> Inr (min lp (track_length t)))
           else
             (case num_of (p_last_position s) of
                None \<Rightarrow> Inl TypeError
              | Some lp \<Rightarrow>
                  (let difference = now e * 1000 - p_last_update s;
                       position = lp + difference
                   in if position > track_length t then Inr 0
                      else Inr (min position (track_length t)))))
      | _ \<Rightarrow> Inr 0)"

subsection \<open>Messages to the node\<close>

text \<open>
  \<^verbatim>\<open>self._node.send(op=..., guildId=..., **extra)\<close>: a key of \<^verbatim>\<open>extra\<close> that repeats a
  named argument makes the call raise \<^verbatim>\<open>TypeError\<close> before anything is sent.
\<close>

definition send_kwargs :: "pydict \<Rightarrow> pydict \<Rightarrow> player \<Rightarrow> unit outcome" where
  "send_kwargs named extra s =
     (if dict_keys named \<inter> dict_keys extra \<noteq> {} then (Inl TypeError, s, [])
      else (Inr (), s, [NodeSend (named @ extra)]))"

definition guildId :: "player \<Rightarrow> string \<times> pyval" where
  "guildId s = (''guildId'', PStr (str_int (guild_id s)))"

subsection \<open>State updates and voice events\<close>

definition update_state :: "env \<Rightarrow> pydict \<Rightarrow> player \<Rightarrow> unit outcome" where
  "update_state e data s =
     (let state = dict_get data ''state'';
          s1 = s\<lparr>p_last_update := now e * 1000\<rparr>
      in case state of
           PDict st \<Rightarrow>
             (Inr (),
              s1\<lparr>p_is_connected := dict_get st ''connected'',
                 p_last_position := dict_get st ''position''\<rparr>, [])
         | _ \<Rightarrow> (Inl AttributeError, s1, []))"

definition dispatch_voice_update :: "pydict \<Rightarrow> player \<Rightarrow> unit outcome" where
  "dispatch_voice_update voice_data s =
     (if {''sessionId'', ''event''} \<noteq> dict_keys (p_voice_state s) then (Inr (), s, [])
      else send_kwargs [(''op'', PStr ''voiceUpdate''), guildId s] voice_data s)"

definition on_voice_server_update :: "pydict \<Rightarrow> player \<Rightarrow> unit outcome" where
  "on_voice_server_update data s =
     (let s1 = s\<lparr>p_voice_state := dict_update ''event'' (PDict data) (p_voice_state s)\<rparr>
      in dispatch_voice_update (p_voice_state s1) s1)"

definition on_voice_state_update :: "env \<Rightarrow> pydict \<Rightarrow> player \<Rightarrow> unit outcome" where
  "on_voice_state_update e data s =
     (let s1 = s\<lparr>p_voice_state :=
                   dict_update ''sessionId'' (dict_get data ''session_id'') (p_voice_state s)\<rparr>;
          channel_id = dict_get data ''channel_id''
      in if \<not> truthy channel_id then
           (Inr (), s1\<lparr>channel := None, p_voice_state := []\<rparr>, [])
         else
           (case get_channel e channel_id of
              Inl err \<Rightarrow> (Inl err, s1, [])
            | Inr ch \<Rightarrow>
                dispatch_voice_update
                  (dict_update ''event'' (PDict data) (p_voice_state s1))
                  (s1\<lparr>channel := ch\<rparr>)))"

definition dispatch_event :: "env \<Rightarrow> pydict \<Rightarrow> player \<Rightarrow> unit outcome" where
  "dispatch_event e data s =
     (case make_event e (dict_get data ''type'') data of
        Inl err \<Rightarrow> (Inl err, s, [])
      | Inr name \<Rightarrow> (Inr (), s, [BotDispatch (''pomice_'' @ name) data]))"

subsection \<open>Commands\<close>

definition get_tracks :: "env \<Rightarrow> string \<Rightarrow> player \<Rightarrow> (track list option) outcome" where
  "get_tracks e query s = (node_get_tracks e query, s, [NodeGetTracks query])"

definition connect :: "player \<Rightarrow> unit outcome" where
  "connect s =
     (Inr (), s\<lparr>is_connected := Some True\<rparr>,
      [ChangeVoiceState (channel s), RegisterPlayer (guild_id s)])"

text \<open>
  \<^verbatim>\<open>stop\<close> begins with \<^verbatim>\<open>self.current = None\<close>. \<^verbatim>\<open>current\<close> is a property with a getter
  only, so the assignment raises \<^verbatim>\<open>AttributeError\<close> and the call ends there.
\<close>

definition stop :: "player \<Rightarrow> unit outcome" where
  "stop s = (Inl AttributeError, s, [])"

definition disconnect :: "player \<Rightarrow> unit outcome" where
  "disconnect s =
     (case stop s of
        (Inl err, s1, fx) \<Rightarrow> (Inl err, s1, fx)
      | (Inr u, s1, fx) \<Rightarrow>
          (Inr (), s1\<lparr>channel := None, p_is_connected := PBool False\<rparr>,
           fx @ [ChangeVoiceState None, Cleanup, UnregisterPlayer (guild_id s1)]))"

definition destroy :: "player \<Rightarrow> unit outcome" where
  "destroy s =
     (case disconnect s of
        (Inl err, s1, fx) \<Rightarrow> (Inl err, s1, fx)
      | (Inr u, s1, fx) \<Rightarrow>
          (Inr (), s1, fx @ [NodeSend [(''op'', PStr ''destroy''), guildId s1]]))"

definition play :: "env \<Rightarrow> track \<Rightarrow> real \<Rightarrow> player \<Rightarrow> track outcome" where
  "play e track start_position s =
     (if spotify track then
        (case node_get_tracks e (search_type track) of
           Inl err \<Rightarrow> (Inl err, s, [NodeGetTracks (search_type track)])
         | Inr None \<Rightarrow> (Inl TypeError, s, [NodeGetTracks (search_type track)])
         | Inr (Some []) \<Rightarrow> (Inl IndexError, s, [NodeGetTracks (search_type track)])
         | Inr (Some (spotify_track # rest)) \<Rightarrow>
             (let track1 = Track (track_id track) (track_length track) (spotify track)
                             (search_type track) (Some spotify_track)
              in (Inr track1, s\<lparr>p_current := Some track1\<rparr>,
                  [NodeGetTracks (search_type track),
                   NodeSend [(''op'', PStr ''play''), guildId s,
                             (''track'', PStr (track_id spotify_track)),
                             (''startTime'', PNum start_position),
                             (''endTime'', PNum (track_length spotify_track)),
                             (''noReplace'', PBool False)]])))
      else
        (Inr track, s\<lparr>p_current := Some track\<rparr>,
         [NodeSend [(''op'', PStr ''play''), guildId s,
                    (''track'', PStr (track_id track)),
                    (''startTime'', PNum start_position),
                    (''endTime'', PNum (track_length track)),
                    (''noReplace'', PBool False)]]))"

text \<open>
  \<^verbatim>\<open>position < 0 or position > self.current.length\<close>: the second test is only reached for a
  position that is not negative, and reading \<^verbatim>\<open>length\<close> of \<^verbatim>\<open>None\<close> raises
  \<^verbatim>\<open>AttributeError\<close>.
\<close>

definition seek :: "real \<Rightarrow> player \<Rightarrow> real outcome" where
  "seek pos s =
     (if pos < 0 then (Inl TrackInvalidPosition, s, [])
      else
        (case current s of
           None \<Rightarrow> (Inl AttributeError, s, [])
         | Some t \<Rightarrow>
             if pos > track_length t then (Inl TrackInvalidPosition, s, [])
             else (Inr (p_position s), s,
                   [NodeSend [(''op'', PStr ''seek''), guildId s, (''position'', PNum pos)]])))"

definition set_pause :: "bool \<Rightarrow> player \<Rightarrow> bool outcome" where
  "set_pause pause s =
     (let s1 = s\<lparr>p_paused := pause\<rparr>
      in (Inr (p_paused s1), s1,
          [NodeSend [(''op'', PStr ''pause''), guildId s, (''pause'', PBool pause)]]))"

definition set_volume :: "int \<Rightarrow> player \<Rightarrow> int outcome" where
  "set_volume vol s =
     (let s1 = s\<lparr>p_volume := vol\<rparr>
      in (Inr (p_volume s1), s1,
          [NodeSend [(''op'', PStr ''volume''), guildId s, (''volume'', PNum (of_int vol))]]))"

definition set_filter :: "env \<Rightarrow> pomice_filter \<Rightarrow> player \<Rightarrow> pomice_filter outcome" where
  "set_filter e f s =
     (case send_kwargs [(''op'', PStr ''filters''), guildId s] (payload f) s of
        (Inl err, s1, fx) \<Rightarrow> (Inl err, s1, fx)
      | (Inr u, s1, fx) \<Rightarrow>
          (case position e s1 of
             Inl err \<Rightarrow> (Inl err, s1, fx)
           | Inr pos \<Rightarrow>
               (case seek pos s1 of
                  (Inl err, s2, fx2) \<Rightarrow> (Inl err, s2, fx @ fx2)
                | (Inr r, s2, fx2) \<Rightarrow> (Inr f, s2\<lparr>p_filter := Some f\<rparr>, fx @ fx2))))"

subsection \<open>Every call on a player, and runs of calls\<close>

datatype call =
    UpdateState pydict
  | DispatchVoiceUpdate pydict
  | OnVoiceServerUpdate pydict
  | OnVoiceStateUpdate pydict
  | DispatchEvent pydict
  | GetTracks string
  | Connect
  | Stop
  | Disconnect
  | Destroy
  | Play track real
  | Seek real
  | SetPause bool
  | SetVolume int
  | SetFilter pomice_filter

text \<open>The player and the effects a call leaves behind, whether it returned or raised.\<close>

fun exec :: "env \<Rightarrow> call \<Rightarrow> player \<Rightarrow> player \<times> effect list" where
  "exec e (UpdateState d) s = snd (update_state e d s)"
| "exec e (DispatchVoiceUpdate d) s = snd (dispatch_voice_update d s)"
| "exec e (OnVoiceServerUpdate d) s = snd (on_voice_server_update d s)"
| "exec e (OnVoiceStateUpdate d) s = snd (on_voice_state_update e d s)"
| "exec e (DispatchEvent d) s = snd (dispatch_event e d s)"
| "exec e (GetTracks q) s = snd (get_tracks e q s)"
| "exec e Connect s = snd (connect s)"
| "exec e Stop s = snd (stop s)"
| "exec e Disconnect s = snd (disconnect s)"
| "exec e Destroy s = snd (destroy s)"
| "exec e (Play t p) s = snd (play e t p s)"
| "exec e (Seek p) s = snd (seek p s)"
| "exec e (SetPause b) s = snd (set_pause b s)"
| "exec e (SetVolume v) s = snd (set_volume v s)"
| "exec e (SetFilter f) s = snd (set_filter e f s)"

fun run :: "(env \<times> call) list \<Rightarrow> player \<Rightarrow> player" where
  "run [] s = s"
| "run ((e, c) # cs) s = run cs (fst (exec e c s))"

subsection \<open>Example values\<close>

definition demo_track :: track where
  "demo_track = Track ''QAAAjQIAJ'' 1000 False ''ytsearch:demo'' None"

definition demo_filter :: pomice_filter where
  "demo_filter = Filter [(''timescale'', PDict [(''speed'', PNum 2)])]"

definition demo_env :: "real \<Rightarrow> env" where
  "demo_env t =
     \<lparr> now = t, get_channel = (\<lambda>_. Inr (Some 7)),
       node_get_tracks = (\<lambda>_. Inr None), make_event = (\<lambda>_ _. Inl TypeError) \<rparr>"

definition fresh_player :: player where
  "fresh_player = Player_init 7 42"

definition playing_player :: player where
  "playing_player = run [(demo_env 0, Play demo_track 0)] fresh_player"

definition state_event :: "bool \<Rightarrow> real \<Rightarrow> pydict" where
  "state_event c p = [(''state'', PDict [(''connected'', PBool c), (''position'', PNum p)])]"

definition paused_mid_track :: player where
  "paused_mid_track =
     run [(demo_env 0, UpdateState (state_event True 500)), (demo_env 0, SetPause True)]
       playing_player"

definition voice_state_data :: pydict where
  "voice_state_data = [(''session_id'', PStr ''abc''), (''channel_id'', PStr ''7'')]"

definition voice_server_data :: pydict where
  "voice_server_data = [(''token'', PStr ''tok''), (''endpoint'', PStr ''eu.example'')]"

definition session_player :: player where
  "session_player = run [(demo_env 0, OnVoiceStateUpdate voice_state_data)] fresh_player"

definition running_player :: player where
  "running_player = run [(demo_env 0, UpdateState (state_event True 500))] playing_player"

definition seek_history :: "(env \<times> call) list" where
  "seek_history =
     [(demo_env 0, Play demo_track 0), (demo_env 1, UpdateState (state_event True 500)),
      (demo_env 2, Seek 100), (demo_env 3, SetVolume 50)]"

section \<open>Evaluation of the example values\<close>

lemma str_int_42: "str_int 42 = ''42''"
  by (simp add: str_int_def digits.simps)

lemma playing_player_eq: "playing_player = fresh_player\<lparr>p_current := Some demo_track\<rparr>"
  by (simp add: playing_player_def play_def demo_track_def)

lemma paused_mid_track_eq:
  "paused_mid_track =
     fresh_player\<lparr>p_current := Some demo_track, p_last_update := 0,
                  p_is_connected := PBool True, p_last_position := PNum 500, p_paused := True\<rparr>"
  by (simp add: paused_mid_track_def playing_player_eq update_state_def set_pause_def
        state_event_def dict_get_def demo_env_def Let_def)

lemma session_player_eq:
  "session_player = fresh_player\<lparr>p_voice_state := [(''sessionId'', PStr ''abc'')]\<rparr>"
  by (simp add: session_player_def on_voice_state_update_def voice_state_data_def dict_get_def
        dict_update_def dispatch_voice_update_def dict_keys_def demo_env_def Let_def
        fresh_player_def Player_init_def)

lemma server_update_on_session:
  "on_voice_server_update voice_server_data session_player =
     (Inr (),
      session_player\<lparr>p_voice_state :=
        [(''sessionId'', PStr ''abc''), (''event'', PDict voice_server_data)]\<rparr>,
      [NodeSend [(''op'', PStr ''voiceUpdate''), (''guildId'', PStr ''42''),
                 (''sessionId'', PStr ''abc''), (''event'', PDict voice_server_data)]])"
  by (simp add: session_player_eq on_voice_server_update_def dispatch_voice_update_def
        send_kwargs_def dict_update_def dict_keys_def guildId_def Let_def
        fresh_player_def Player_init_def str_int_42)

lemma running_player_eq:
  "running_player =
     fresh_player\<lparr>p_current := Some demo_track, p_last_update := 0,
                  p_is_connected := PBool True, p_last_position := PNum 500\<rparr>"
  by (simp add: running_player_def playing_player_eq update_state_def
        state_event_def dict_get_def demo_env_def Let_def)

lemma paused_mid_track_facts:
  "p_last_position paused_mid_track = PNum 500"
  "p_last_update paused_mid_track = 0"
  "current paused_mid_track = Some demo_track"
  "is_playing paused_mid_track = PBool True"
  "is_paused paused_mid_track = PBool True"
  by (simp_all add: paused_mid_track_eq current_def is_playing_def is_paused_def)

lemma running_player_facts:
  "p_last_position running_player = PNum 500"
  "p_last_update running_player = 0"
  "current running_player = Some demo_track"
  "is_playing running_player = PBool True"
  "is_paused running_player = PBool False"
  by (simp_all add: running_player_eq current_def is_playing_def is_paused_def
        fresh_player_def Player_init_def)

lemma demo_facts: "track_length demo_track = 1000" "now (demo_env t) = t"
  by (simp_all add: demo_track_def demo_env_def)

lemma seek_history_eq:
  "run seek_history (Player_init 7 42) =
     (Player_init 7 42)\<lparr>p_current := Some demo_track, p_last_update := 1000,
        p_is_connected := PBool True, p_last_position := PNum 500, p_volume := 50\<rparr>"
  by (simp add: seek_history_def play_def update_state_def seek_def set_volume_def
        state_event_def dict_get_def demo_env_def demo_track_def current_def Let_def)

section \<open>Commands that send one message\<close>

text \<open>
  C1. For a track that is not a Spotify track, \<open>play\<close> sends exactly one message, a
  \<^verbatim>\<open>play\<close> message with the guild id, the track's id, the start position and the track's
  length as end time; it returns the track, and \<open>current\<close> returns the track afterwards.
\<close>

theorem play_plain_track:
  assumes "\<not> spotify t"
  shows "play e t start s =
           (Inr t, s\<lparr>p_current := Some t\<rparr>,
            [NodeSend [(''op'', PStr ''play''), (''guildId'', PStr (str_int (guild_id s))),
                       (''track'', PStr (track_id t)), (''startTime'', PNum start),
                       (''endTime'', PNum (track_length t)), (''noReplace'', PBool False)]])
         \<and> current (fst (snd (play e t start s))) = Some t"
  using assms by (simp add: play_def guildId_def current_def)

theorem play_plain_track_witness:
  "\<not> spotify demo_track \<and>
   play (demo_env 0) demo_track 250 fresh_player =
     (Inr demo_track, fresh_player\<lparr>p_current := Some demo_track\<rparr>,
      [NodeSend [(''op'', PStr ''play''), (''guildId'', PStr ''42''),
                 (''track'', PStr ''QAAAjQIAJ''), (''startTime'', PNum 250),
                 (''endTime'', PNum 1000), (''noReplace'', PBool False)]])
   \<and> current (fst (snd (play (demo_env 0) demo_track 250 fresh_player))) = Some demo_track"
proof -
  have h: "\<not> spotify demo_track" by (simp add: demo_track_def)
  have g: "str_int (guild_id fresh_player) = ''42''"
    by (simp add: fresh_player_def Player_init_def str_int_42)
  have t: "track_id demo_track = ''QAAAjQIAJ''" "track_length demo_track = 1000"
    by (simp_all add: demo_track_def)
  show ?thesis
    using h play_plain_track [OF h, of "demo_env 0" 250 fresh_player]
    by (simp add: g t current_def)
qed

text \<open>
  C6. \<open>set_pause\<close> sends a \<^verbatim>\<open>pause\<close> message with the flag and the guild id, stores the
  flag as the tracked pause state and returns that state.
\<close>

theorem set_pause_sends_and_tracks:
  "set_pause pause s =
     (Inr pause, s\<lparr>p_paused := pause\<rparr>,
      [NodeSend [(''op'', PStr ''pause''), (''guildId'', PStr (str_int (guild_id s))),
                 (''pause'', PBool pause)]])
   \<and> p_paused (fst (snd (set_pause pause s))) = pause"
  by (simp add: set_pause_def guildId_def Let_def)

theorem set_pause_sends_and_tracks_witness:
  "set_pause True playing_player =
     (Inr True, playing_player\<lparr>p_paused := True\<rparr>,
      [NodeSend [(''op'', PStr ''pause''), (''guildId'', PStr ''42''), (''pause'', PBool True)]])"
proof -
  have g: "str_int (guild_id playing_player) = ''42''"
    by (simp add: playing_player_eq fresh_player_def Player_init_def str_int_42)
  show ?thesis
    using set_pause_sends_and_tracks [of True playing_player] by (simp add: g)
qed

section \<open>Seeking\<close>

text \<open>
  C2. With a current track, \<open>seek\<close> raises \<^verbatim>\<open>TrackInvalidPosition\<close> exactly when the
  position is negative or beyond the track's length; then nothing is sent and the player is
  unchanged. Otherwise it sends one \<^verbatim>\<open>seek\<close> message with the position and the guild id.
\<close>

theorem seek_invalid_position:
  assumes "current s = Some t"
  shows "(fst (seek pos s) = Inl TrackInvalidPosition \<longleftrightarrow> pos < 0 \<or> pos > track_length t)
     \<and> (pos < 0 \<or> pos > track_length t \<longrightarrow> seek pos s = (Inl TrackInvalidPosition, s, []))
     \<and> (\<not> (pos < 0 \<or> pos > track_length t) \<longrightarrow>
          seek pos s =
            (Inr (p_position s), s,
             [NodeSend [(''op'', PStr ''seek''), (''guildId'', PStr (str_int (guild_id s))),
                        (''position'', PNum pos)]]))"
  using assms by (auto simp add: seek_def guildId_def)

theorem seek_invalid_position_witness:
  "current playing_player = Some demo_track
   \<and> seek 2000 playing_player = (Inl TrackInvalidPosition, playing_player, [])
   \<and> seek (- 1) playing_player = (Inl TrackInvalidPosition, playing_player, [])
   \<and> seek 250 playing_player =
       (Inr 0, playing_player,
        [NodeSend [(''op'', PStr ''seek''), (''guildId'', PStr ''42''), (''position'', PNum 250)]])"
proof -
  have h: "current playing_player = Some demo_track"
    by (simp add: playing_player_eq current_def)
  have g: "str_int (guild_id playing_player) = ''42''"
    by (simp add: playing_player_eq fresh_player_def Player_init_def str_int_42)
  have p: "p_position playing_player = 0"
    by (simp add: playing_player_eq fresh_player_def Player_init_def)
  have t: "track_length demo_track = 1000" by (simp add: demo_track_def)
  show ?thesis
    using h seek_invalid_position [OF h, of 2000] seek_invalid_position [OF h, of "- 1"]
      seek_invalid_position [OF h, of 250]
    by (simp add: g p t)
qed

section \<open>Mirroring the remote state\<close>

text \<open>
  C3. A state update whose payload carries a connected flag \<open>c\<close> and a position \<open>p\<close> sets
  the tracked connectedness to \<open>c\<close>, the tracked last position to \<open>p\<close> and the time of the
  last update to the clock reading in milliseconds; no other field changes and nothing is sent.
\<close>

theorem update_state_mirrors:
  assumes "dict_get data ''state'' = PDict st"
      and "map_of st ''connected'' = Some (PBool c)"
      and "map_of st ''position'' = Some (PNum p)"
  shows "update_state e data s =
           (Inr (), s\<lparr>p_last_update := now e * 1000, p_is_connected := PBool c,
                      p_last_position := PNum p\<rparr>, [])"
  using assms by (simp add: update_state_def dict_get_def Let_def)

theorem update_state_mirrors_witness:
  "dict_get (state_event True 500) ''state'' = PDict [(''connected'', PBool True), (''position'', PNum 500)]
   \<and> update_state (demo_env 3) (state_event True 500) playing_player =
       (Inr (), playing_player\<lparr>p_last_update := 3000, p_is_connected := PBool True,
                               p_last_position := PNum 500\<rparr>, [])"
proof -
  have h1: "dict_get (state_event True 500) ''state'' =
              PDict [(''connected'', PBool True), (''position'', PNum 500)]"
    by (simp add: state_event_def dict_get_def)
  have h2: "map_of [(''connected'', PBool True), (''position'', PNum 500)] ''connected'' =
              Some (PBool True)"
    by simp
  have h3: "map_of [(''connected'', PBool True), (''position'', PNum 500)] ''position'' =
              Some (PNum 500)"
    by simp
  have n: "now (demo_env 3) * 1000 = 3000" by (simp add: demo_env_def)
  show ?thesis
    using h1 update_state_mirrors [OF h1 h2 h3, of "demo_env 3" playing_player] by (simp add: n)
qed

section \<open>A player that is not connected\<close>

text \<open>
  C10. When the tracked connected flag is \<^verbatim>\<open>False\<close>, \<open>is_playing\<close> and \<open>is_paused\<close> both
  return \<^verbatim>\<open>False\<close>, whatever the current track and the tracked pause flag are.
\<close>

theorem disconnected_not_playing_nor_paused:
  "p_is_connected s = PBool False \<Longrightarrow> is_playing s = PBool False \<and> is_paused s = PBool False"
  by (simp add: is_playing_def is_paused_def)

theorem disconnected_not_playing_nor_paused_witness:
  "p_is_connected (playing_player\<lparr>p_paused := True\<rparr>) = PBool False
   \<and> p_current (playing_player\<lparr>p_paused := True\<rparr>) = Some demo_track
   \<and> is_playing (playing_player\<lparr>p_paused := True\<rparr>) = PBool False
   \<and> is_paused (playing_player\<lparr>p_paused := True\<rparr>) = PBool False"
proof -
  have h: "p_is_connected (playing_player\<lparr>p_paused := True\<rparr>) = PBool False"
    by (simp add: playing_player_eq fresh_player_def Player_init_def)
  have c: "p_current (playing_player\<lparr>p_paused := True\<rparr>) = Some demo_track"
    by (simp add: playing_player_eq)
  show ?thesis
    using h c disconnected_not_playing_nor_paused [OF h] by simp
qed

section \<open>Voice updates\<close>

subsection \<open>What each call can send\<close>

lemma dict_keys_update: "dict_keys (dict_update k v d) = insert k (dict_keys d)"
  by (auto simp add: dict_keys_def dict_update_def update_keys)

lemma dispatch_voice_update_state: "fst (snd (dispatch_voice_update vd s)) = s"
  by (simp add: dispatch_voice_update_def send_kwargs_def)

lemma dispatch_voice_update_guard:
  "snd (snd (dispatch_voice_update vd s)) \<noteq> [] \<Longrightarrow>
     dict_keys (p_voice_state s) = {''sessionId'', ''event''}"
  by (cases "{''sessionId'', ''event''} = dict_keys (p_voice_state s)")
     (simp_all add: dispatch_voice_update_def)

lemma voice_server_post:
  "fst (snd (on_voice_server_update d s)) =
     s\<lparr>p_voice_state := dict_update ''event'' (PDict d) (p_voice_state s)\<rparr>"
  by (simp add: on_voice_server_update_def Let_def dispatch_voice_update_state)

lemma voice_server_guard:
  "snd (snd (on_voice_server_update d s)) \<noteq> [] \<Longrightarrow>
     dict_keys (p_voice_state (fst (snd (on_voice_server_update d s)))) = {''sessionId'', ''event''}"
  unfolding voice_server_post
  by (simp add: on_voice_server_update_def Let_def)
     (drule dispatch_voice_update_guard, simp)

lemma voice_server_silent:
  "''sessionId'' \<notin> dict_keys (p_voice_state s) \<Longrightarrow>
     snd (snd (on_voice_server_update d s)) = []"
proof (rule ccontr)
  assume a: "''sessionId'' \<notin> dict_keys (p_voice_state s)"
    and b: "snd (snd (on_voice_server_update d s)) \<noteq> []"
  have "dict_keys (dict_update ''event'' (PDict d) (p_voice_state s)) = {''sessionId'', ''event''}"
    using voice_server_guard [OF b] by (simp add: voice_server_post)
  then have "''sessionId'' \<in> insert ''event'' (dict_keys (p_voice_state s))"
    by (simp add: dict_keys_update)
  with a show False by simp
qed

lemma voice_state_guard:
  "snd (snd (on_voice_state_update e d s)) \<noteq> [] \<Longrightarrow>
     dict_keys (p_voice_state (fst (snd (on_voice_state_update e d s)))) = {''sessionId'', ''event''}"
proof -
  assume a: "snd (snd (on_voice_state_update e d s)) \<noteq> []"
  define s1 where "s1 = s\<lparr>p_voice_state :=
      dict_update ''sessionId'' (dict_get d ''session_id'') (p_voice_state s)\<rparr>"
  define cid where "cid = dict_get d ''channel_id''"
  have t: "truthy cid"
    using a by (cases "truthy cid") (simp_all add: on_voice_state_update_def Let_def cid_def)
  show ?thesis
  proof (cases "get_channel e cid")
    case (Inl err)
    then show ?thesis
      using a t by (simp add: on_voice_state_update_def Let_def cid_def)
  next
    case (Inr ch)
    have eq: "on_voice_state_update e d s =
        dispatch_voice_update (dict_update ''event'' (PDict d) (p_voice_state s1))
          (s1\<lparr>channel := ch\<rparr>)"
      using t Inr by (simp add: on_voice_state_update_def Let_def cid_def s1_def)
    show ?thesis
      using a dispatch_voice_update_guard
        [of "dict_update ''event'' (PDict d) (p_voice_state s1)" "s1\<lparr>channel := ch\<rparr>"]
      by (simp add: eq dispatch_voice_update_state)
  qed
qed

lemma send_kwargs_op:
  "send_kwargs ((''op'', v) # rest) extra s = (r, s1, fx) \<Longrightarrow> NodeSend m \<in> set fx \<Longrightarrow>
     dict_get m ''op'' = v"
  by (auto simp add: send_kwargs_def dict_get_def split: if_splits)

lemma seek_op:
  "seek pos s = (r, s1, fx) \<Longrightarrow> NodeSend m \<in> set fx \<Longrightarrow> dict_get m ''op'' = PStr ''seek''"
  by (auto simp add: seek_def dict_get_def split: if_splits option.splits)

lemma set_filter_op:
  "NodeSend m \<in> set (snd (snd (set_filter e f s))) \<Longrightarrow>
     dict_get m ''op'' = PStr ''filters'' \<or> dict_get m ''op'' = PStr ''seek''"
  by (auto simp add: set_filter_def split: prod.splits sum.splits dest: send_kwargs_op seek_op)

lemma play_op:
  "NodeSend m \<in> set (snd (snd (play e t p s))) \<Longrightarrow> dict_get m ''op'' = PStr ''play''"
  by (auto simp add: play_def dict_get_def Let_def
        split: if_splits sum.splits option.splits list.splits)

lemma set_pause_op:
  "NodeSend m \<in> set (snd (snd (set_pause b s))) \<Longrightarrow> dict_get m ''op'' = PStr ''pause''"
  by (auto simp add: set_pause_def dict_get_def Let_def)

lemma set_volume_op:
  "NodeSend m \<in> set (snd (snd (set_volume v s))) \<Longrightarrow> dict_get m ''op'' = PStr ''volume''"
  by (auto simp add: set_volume_def dict_get_def Let_def)

lemma no_send_update_state: "NodeSend m \<notin> set (snd (snd (update_state e d s)))"
  by (simp add: update_state_def Let_def split: pyval.splits)

lemma no_send_dispatch_event: "NodeSend m \<notin> set (snd (snd (dispatch_event e d s)))"
  by (simp add: dispatch_event_def split: sum.splits)

lemma no_send_stop_family:
  "NodeSend m \<notin> set (snd (snd (stop s)))"
  "NodeSend m \<notin> set (snd (snd (disconnect s)))"
  "NodeSend m \<notin> set (snd (snd (destroy s)))"
  "NodeSend m \<notin> set (snd (snd (connect s)))"
  "NodeSend m \<notin> set (snd (snd (get_tracks e q s)))"
  by (simp_all add: stop_def disconnect_def destroy_def connect_def get_tracks_def)

subsection \<open>The guard on voice updates\<close>

text \<open>
  C4. A \<^verbatim>\<open>voiceUpdate\<close> message is only sent while the buffered voice state has exactly the
  keys \<^verbatim>\<open>sessionId\<close> and \<^verbatim>\<open>event\<close>: whatever call is made in whatever state, if the call
  sends such a message then the buffered voice state has exactly these two keys. In particular
  \<open>on_voice_server_update\<close> sends nothing while no session id is buffered.
\<close>

theorem voice_update_needs_both_keys:
  "(NodeSend m \<in> set (snd (exec e c s)) \<and> dict_get m ''op'' = PStr ''voiceUpdate''
      \<longrightarrow> dict_keys (p_voice_state (fst (exec e c s))) = {''sessionId'', ''event''})
   \<and> (''sessionId'' \<notin> dict_keys (p_voice_state s)
      \<longrightarrow> snd (snd (on_voice_server_update d s)) = [])"
proof (intro conjI impI)
  assume "''sessionId'' \<notin> dict_keys (p_voice_state s)"
  then show "snd (snd (on_voice_server_update d s)) = []"
    by (rule voice_server_silent)
next
  assume a: "NodeSend m \<in> set (snd (exec e c s)) \<and> dict_get m ''op'' = PStr ''voiceUpdate''"
  then have mem: "NodeSend m \<in> set (snd (exec e c s))"
    and vu: "dict_get m ''op'' = PStr ''voiceUpdate''" by simp_all
  show "dict_keys (p_voice_state (fst (exec e c s))) = {''sessionId'', ''event''}"
  proof (cases c)
    case (UpdateState x)
    with mem show ?thesis by (simp add: no_send_update_state)
  next
    case (DispatchVoiceUpdate x)
    with mem have "snd (snd (dispatch_voice_update x s)) \<noteq> []" by auto
    then show ?thesis
      using DispatchVoiceUpdate dispatch_voice_update_guard [of x s]
      by (simp add: dispatch_voice_update_state)
  next
    case (OnVoiceServerUpdate x)
    with mem have "snd (snd (on_voice_server_update x s)) \<noteq> []" by auto
    then show ?thesis
      using OnVoiceServerUpdate voice_server_guard [of x s] by simp
  next
    case (OnVoiceStateUpdate x)
    with mem have "snd (snd (on_voice_state_update e x s)) \<noteq> []" by auto
    then show ?thesis
      using OnVoiceStateUpdate voice_state_guard [of e x s] by simp
  next
    case (DispatchEvent x)
    with mem show ?thesis by (simp add: no_send_dispatch_event)
  next
    case (GetTracks x)
    with mem show ?thesis by (simp add: no_send_stop_family)
  next
    case Connect
    with mem show ?thesis by (simp add: no_send_stop_family)
  next
    case Stop
    with mem show ?thesis by (simp add: no_send_stop_family)
  next
    case Disconnect
    with mem show ?thesis by (simp add: no_send_stop_family)
  next
    case Destroy
    with mem show ?thesis by (simp add: no_send_stop_family)
  next
    case (Play t p)
    with mem have "dict_get m ''op'' = PStr ''play''" by (simp add: play_op)
    with vu show ?thesis by simp
  next
    case (Seek p)
    with mem have "dict_get m ''op'' = PStr ''seek''"
      using seek_op [of p s "fst (seek p s)" "fst (snd (seek p s))" "snd (snd (seek p s))" m]
      by simp
    with vu show ?thesis by simp
  next
    case (SetPause b)
    with mem have "dict_get m ''op'' = PStr ''pause''" by (simp add: set_pause_op)
    with vu show ?thesis by simp
  next
    case (SetVolume v)
    with mem have "dict_get m ''op'' = PStr ''volume''" by (simp add: set_volume_op)
    with vu show ?thesis by simp
  next
    case (SetFilter f)
    with mem have "dict_get m ''op'' = PStr ''filters'' \<or> dict_get m ''op'' = PStr ''seek''"
      by (simp add: set_filter_op)
    with vu show ?thesis by auto
  qed
qed

theorem voice_update_needs_both_keys_witness:
  "NodeSend [(''op'', PStr ''voiceUpdate''), (''guildId'', PStr ''42''),
             (''sessionId'', PStr ''abc''), (''event'', PDict voice_server_data)]
     \<in> set (snd (exec (demo_env 0) (OnVoiceServerUpdate voice_server_data) session_player))
   \<and> dict_keys (p_voice_state
        (fst (exec (demo_env 0) (OnVoiceServerUpdate voice_server_data) session_player)))
       = {''sessionId'', ''event''}
   \<and> ''sessionId'' \<notin> dict_keys (p_voice_state fresh_player)
   \<and> snd (snd (on_voice_server_update voice_server_data fresh_player)) = []"
proof -
  let ?m = "[(''op'', PStr ''voiceUpdate''), (''guildId'', PStr ''42''),
             (''sessionId'', PStr ''abc''), (''event'', PDict voice_server_data)]"
  have h1: "NodeSend ?m
     \<in> set (snd (exec (demo_env 0) (OnVoiceServerUpdate voice_server_data) session_player))"
    by (simp add: server_update_on_session)
  have h2: "dict_get ?m ''op'' = PStr ''voiceUpdate''" by (simp add: dict_get_def)
  have h3: "''sessionId'' \<notin> dict_keys (p_voice_state fresh_player)"
    by (simp add: fresh_player_def Player_init_def dict_keys_def)
  show ?thesis
    using h1 h2 h3
      voice_update_needs_both_keys [of ?m "demo_env 0" "OnVoiceServerUpdate voice_server_data"
        session_player voice_server_data]
      voice_update_needs_both_keys [of ?m "demo_env 0" "OnVoiceServerUpdate voice_server_data"
        fresh_player voice_server_data]
    by simp
qed

section \<open>The value that seek returns\<close>

lemma send_kwargs_state: "fst (snd (send_kwargs named extra s)) = s"
  by (simp add: send_kwargs_def)

lemma seek_state: "fst (snd (seek pos s)) = s"
  by (simp add: seek_def split: option.splits)

lemma set_filter_position: "p_position (fst (snd (set_filter e f s))) = p_position s"
proof -
  obtain r1 s1 fx1 where a: "send_kwargs [(''op'', PStr ''filters''), guildId s] (payload f) s = (r1, s1, fx1)"
    by (cases "send_kwargs [(''op'', PStr ''filters''), guildId s] (payload f) s") auto
  have s1: "s1 = s" using send_kwargs_state [of "[(''op'', PStr ''filters''), guildId s]" "payload f" s] a by simp
  show ?thesis
  proof (cases r1)
    case (Inl err)
    then show ?thesis using a s1 by (simp add: set_filter_def)
  next
    case (Inr u)
    show ?thesis
    proof (cases "position e s")
      case (Inl err)
      then show ?thesis using a s1 Inr by (simp add: set_filter_def)
    next
      case pos: (Inr pos)
      obtain r2 s2 fx2 where b: "seek pos s = (r2, s2, fx2)"
        by (cases "seek pos s") auto
      have s2: "s2 = s" using seek_state [of pos s] b by simp
      show ?thesis using a s1 Inr pos b s2
        by (cases r2) (simp_all add: set_filter_def)
    qed
  qed
qed

lemma exec_position: "p_position (fst (exec e c s)) = p_position s"
proof (cases c)
  case (UpdateState x)
  then show ?thesis by (simp add: update_state_def Let_def split: pyval.splits)
next
  case (DispatchVoiceUpdate x)
  then show ?thesis by (simp add: dispatch_voice_update_state)
next
  case (OnVoiceServerUpdate x)
  then show ?thesis by (simp add: voice_server_post)
next
  case (OnVoiceStateUpdate x)
  then show ?thesis
    by (simp add: on_voice_state_update_def Let_def dispatch_voice_update_state
          split: sum.splits)
next
  case (DispatchEvent x)
  then show ?thesis by (simp add: dispatch_event_def split: sum.splits)
next
  case (GetTracks x)
  then show ?thesis by (simp add: get_tracks_def)
next
  case Connect
  then show ?thesis by (simp add: connect_def)
next
  case Stop
  then show ?thesis by (simp add: stop_def)
next
  case Disconnect
  then show ?thesis by (simp add: disconnect_def stop_def)
next
  case Destroy
  then show ?thesis by (simp add: destroy_def disconnect_def stop_def)
next
  case (Play t p)
  then show ?thesis
    by (simp add: play_def Let_def split: sum.splits option.splits list.splits)
next
  case (Seek p)
  then show ?thesis by (simp add: seek_state)
next
  case (SetPause b)
  then show ?thesis by (simp add: set_pause_def Let_def)
next
  case (SetVolume v)
  then show ?thesis by (simp add: set_volume_def Let_def)
next
  case (SetFilter f)
  then show ?thesis by (simp add: set_filter_position)
qed

lemma run_position: "p_position (run cs s) = p_position s"
proof (induction cs arbitrary: s)
  case Nil
  show ?case by simp
next
  case (Cons x cs)
  obtain e c where x: "x = (e, c)" by (cases x)
  show ?case using Cons.IH [of "fst (exec e c s)"] by (simp add: x exec_position)
qed

lemma seek_result: "fst (seek pos s) = Inr r \<Longrightarrow> r = p_position s"
  by (auto simp add: seek_def split: if_splits option.splits)

text \<open>
  C8. A successful \<open>seek\<close> returns 0 whatever the position argument: it returns the field
  \<^verbatim>\<open>_position\<close>, which the constructor sets to 0 and which no call on the player changes,
  whether the call returns or raises.
\<close>

theorem seek_returns_zero:
  "p_position (Player_init ch gid) = 0
   \<and> p_position (fst (exec e c s)) = p_position s
   \<and> (fst (seek pos (run cs (Player_init ch gid))) = Inr r \<longrightarrow> r = 0)"
proof (intro conjI impI)
  show init: "p_position (Player_init ch gid) = 0" by (simp add: Player_init_def)
  show "p_position (fst (exec e c s)) = p_position s" by (rule exec_position)
  assume "fst (seek pos (run cs (Player_init ch gid))) = Inr r"
  then have "r = p_position (run cs (Player_init ch gid))" by (rule seek_result)
  then show "r = 0" by (simp add: run_position init)
qed

theorem seek_returns_zero_witness:
  "fst (seek 750 (run seek_history (Player_init 7 42))) = Inr 0
   \<and> fst (seek 20 (run seek_history (Player_init 7 42))) = Inr 0"
proof -
  have len: "track_length demo_track = 1000" by (simp add: demo_track_def)
  have a: "fst (seek 750 (run seek_history (Player_init 7 42))) =
             Inr (p_position (run seek_history (Player_init 7 42)))"
    by (simp add: seek_history_eq seek_def current_def len)
  have b: "fst (seek 20 (run seek_history (Player_init 7 42))) =
             Inr (p_position (run seek_history (Player_init 7 42)))"
    by (simp add: seek_history_eq seek_def current_def len)
  have z: "p_position (run seek_history (Player_init 7 42)) = 0"
    using a seek_returns_zero [of 7 42 "demo_env 0" Stop fresh_player 750 seek_history
        "p_position (run seek_history (Player_init 7 42))"]
    by simp
  show ?thesis using a b z by simp
qed

section \<open>The position property\<close>

lemma position_no_track: "current s = None \<or> \<not> truthy (is_playing s) \<Longrightarrow> position e s = Inr 0"
  by (auto simp add: position_def split: bool.splits option.splits)

lemma position_paused:
  "current s = Some t \<Longrightarrow> truthy (is_playing s) \<Longrightarrow> truthy (is_paused s) \<Longrightarrow>
     p_last_position s = PNum lp \<Longrightarrow> position e s = Inr (min lp (track_length t))"
  by (simp add: position_def)

lemma position_running:
  "current s = Some t \<Longrightarrow> truthy (is_playing s) \<Longrightarrow> \<not> truthy (is_paused s) \<Longrightarrow>
     p_last_position s = PNum lp \<Longrightarrow>
     position e s =
       (if track_length t < lp + (now e * 1000 - p_last_update s) then Inr 0
        else Inr (min (lp + (now e * 1000 - p_last_update s)) (track_length t)))"
  by (simp add: position_def Let_def)

text \<open>
  C9, as the code has it. Let the tracked last position be a number that is not negative and
  the time of the last update not lie in the future. Then \<open>position\<close> returns 0 when there is no
  current track or the player is not playing. With a current track whose length is not
  negative it returns a value between 0 and the length; it returns 0 when the player is not
  paused and the position extrapolated by the clock is beyond the length; and while the player
  is playing and paused it returns the smaller of the last position and the length, without
  extrapolating.
\<close>

theorem position_within_track:
  assumes "p_last_position s = PNum lp" and "0 \<le> lp" and "p_last_update s \<le> now e * 1000"
  shows "(current s = None \<or> \<not> truthy (is_playing s) \<longrightarrow> position e s = Inr 0)
     \<and> (current s = Some t \<and> 0 \<le> track_length t \<longrightarrow>
          (\<exists>v. position e s = Inr v \<and> 0 \<le> v \<and> v \<le> track_length t)
        \<and> (\<not> truthy (is_paused s) \<and> track_length t < lp + (now e * 1000 - p_last_update s)
             \<longrightarrow> position e s = Inr 0)
        \<and> (truthy (is_playing s) \<and> truthy (is_paused s)
             \<longrightarrow> position e s = Inr (min lp (track_length t))))"
proof (intro conjI impI)
  assume "current s = None \<or> \<not> truthy (is_playing s)"
  then show "position e s = Inr 0" by (rule position_no_track)
next
  assume a: "current s = Some t \<and> 0 \<le> track_length t"
  show "\<exists>v. position e s = Inr v \<and> 0 \<le> v \<and> v \<le> track_length t"
  proof (cases "truthy (is_playing s)")
    case False
    then have "position e s = Inr 0" by (simp add: position_no_track)
    with a show ?thesis by simp
  next
    case True
    show ?thesis
    proof (cases "truthy (is_paused s)")
      case p: True
      have "position e s = Inr (min lp (track_length t))"
        using a True p assms(1) by (simp add: position_paused)
      with a assms(2) show ?thesis by simp
    next
      case p: False
      have "position e s =
         (if track_length t < lp + (now e * 1000 - p_last_update s) then Inr 0
          else Inr (min (lp + (now e * 1000 - p_last_update s)) (track_length t)))"
        using a True p assms(1) by (simp add: position_running)
      with a assms(2,3) show ?thesis by auto
    qed
  qed
next
  assume a: "current s = Some t \<and> 0 \<le> track_length t"
    and b: "\<not> truthy (is_paused s) \<and> track_length t < lp + (now e * 1000 - p_last_update s)"
  show "position e s = Inr 0"
  proof (cases "truthy (is_playing s)")
    case False
    then show ?thesis by (simp add: position_no_track)
  next
    case True
    then show ?thesis using a b assms(1) by (simp add: position_running)
  qed
next
  assume a: "current s = Some t \<and> 0 \<le> track_length t"
    and b: "truthy (is_playing s) \<and> truthy (is_paused s)"
  then show "position e s = Inr (min lp (track_length t))"
    using assms(1) by (simp add: position_paused)
qed

theorem position_within_track_witness:
  "position (demo_env 10) paused_mid_track = Inr 500
   \<and> position (demo_env 10) running_player = Inr 0
   \<and> position (demo_env (1 / 10)) running_player = Inr 600
   \<and> position (demo_env 10) fresh_player = Inr 0"
proof -
  have f: "p_last_position fresh_player = PNum 0" "p_last_update fresh_player = 0"
    "current fresh_player = None"
    by (simp_all add: fresh_player_def Player_init_def current_def)
  have r: "position (demo_env (1 / 10)) running_player = Inr 600"
    by (simp add: position_def running_player_facts demo_facts)
  show ?thesis
    using r
      position_within_track [of paused_mid_track 500 "demo_env 10" demo_track]
      position_within_track [of running_player 500 "demo_env 10" demo_track]
      position_within_track [of fresh_player 0 "demo_env 10" demo_track]
    by (simp add: paused_mid_track_facts running_player_facts demo_facts f)
qed

text \<open>
  The claim C9 as stated asks for 0 whenever the extrapolated position is beyond the track's
  length. A paused player returns its last position instead: paused at 500 ms of a track of
  1000 ms and read ten seconds later, \<open>position\<close> is 500.
\<close>

theorem position_paused_counterexample:
  "p_last_position paused_mid_track = PNum 500 \<and> (0::real) \<le> 500
   \<and> p_last_update paused_mid_track \<le> now (demo_env 10) * 1000
   \<and> current paused_mid_track = Some demo_track
   \<and> track_length demo_track
       < 500 + (now (demo_env 10) * 1000 - p_last_update paused_mid_track)
   \<and> position (demo_env 10) paused_mid_track = Inr 500
   \<and> position (demo_env 10) paused_mid_track \<noteq> Inr 0"
  by (simp add: paused_mid_track_facts demo_facts position_def)

section \<open>Stopping and filters\<close>

text \<open>
  C5. \<open>stop\<close> is meant to clear the current track and send a \<^verbatim>\<open>stop\<close> message. On a player
  that is playing a track it raises \<^verbatim>\<open>AttributeError\<close> instead: nothing is sent and the
  current track stays.
\<close>

theorem stop_raises_attribute_error:
  "stop playing_player = (Inl AttributeError, playing_player, [])
   \<and> current (fst (snd (stop playing_player))) = Some demo_track"
  by (simp add: stop_def playing_player_eq current_def)

text \<open>
  C7. \<open>set_filter\<close> is meant to send the filter and store it in every state. On a player
  without a current track the \<^verbatim>\<open>filters\<close> message is sent, then the \<open>seek\<close> to position 0
  raises \<^verbatim>\<open>AttributeError\<close>, and the filter is not stored.
\<close>

theorem set_filter_without_track_raises:
  "current fresh_player = None
   \<and> set_filter (demo_env 0) demo_filter fresh_player =
       (Inl AttributeError, fresh_player,
        [NodeSend [(''op'', PStr ''filters''), (''guildId'', PStr ''42''),
                   (''timescale'', PDict [(''speed'', PNum 2)])]])
   \<and> filter_prop (fst (snd (set_filter (demo_env 0) demo_filter fresh_player))) = None"
proof -
  have c: "current fresh_player = None"
    by (simp add: current_def fresh_player_def Player_init_def)
  have p: "position (demo_env 0) fresh_player = Inr 0"
    by (simp add: position_def c split: bool.splits)
  have k: "send_kwargs [(''op'', PStr ''filters''), guildId fresh_player] (payload demo_filter)
             fresh_player =
           (Inr (), fresh_player,
            [NodeSend [(''op'', PStr ''filters''), (''guildId'', PStr ''42''),
                       (''timescale'', PDict [(''speed'', PNum 2)])]])"
    by (simp add: send_kwargs_def guildId_def dict_keys_def demo_filter_def
          fresh_player_def Player_init_def str_int_42)
  have s: "seek 0 fresh_player = (Inl AttributeError, fresh_player, [])"
    by (simp add: seek_def c)
  have f: "p_filter fresh_player = None" by (simp add: fresh_player_def Player_init_def)
  show ?thesis
    by (simp add: c set_filter_def k p s filter_prop_def f)
qed

end
